theory Spec2Isabelle
  imports Main "HOL-Library.Sublist"
begin

section \<open>Python values\<close>

text \<open>
  The tools exchange loosely typed Python values: the arguments of a tool call, the
  verdict of the analysis tool, the \<open>data\<close> mapping handed to the persistence tool and
  the result dictionaries the tools return. A dictionary is an association list with
  string keys (the keys of a \<open>Dict[str, Any]\<close>); the first binding of a key is the one
  a lookup finds.
\<close>

datatype pyval =
    PNone
  | PBool bool
  | PInt int
  | PStr string
  | PList "pyval list"
  | PDict "(string \<times> pyval) list"

type_synonym pydict = "(string \<times> pyval) list"

text \<open>The exceptions the modelled code can raise or let through.\<close>

datatype pyexc =
    ValueError string
  | SyntaxError string
  | TypeError
  | AttributeError
  | IndexError
  | UnboundLocalError
  | OverflowError
  | ValidationError
  | GraphRecursionError
  | OtherException string

text \<open>\<open>d.get(k)\<close>: the value bound to \<open>k\<close>, or \<open>None\<close>.\<close>

definition dict_get :: "pydict \<Rightarrow> string \<Rightarrow> pyval" where
  "dict_get d k = (case map_of d k of None \<Rightarrow> PNone | Some v \<Rightarrow> v)"

text \<open>\<open>d[k] = v\<close>: overwrite the binding in place, or add it at the end.\<close>

fun dict_set :: "pydict \<Rightarrow> string \<Rightarrow> pyval \<Rightarrow> pydict" where
  "dict_set [] k v = [(k, v)]"
| "dict_set ((k', v') # d) k v =
     (if k' = k then (k, v) # d else (k', v') # dict_set d k v)"

text \<open>Truth value of an object, as \<open>if x:\<close> and \<open>not x\<close> test it.\<close>

fun truthy :: "pyval \<Rightarrow> bool" where
  "truthy PNone = False"
| "truthy (PBool b) = b"
| "truthy (PInt i) = (i \<noteq> 0)"
| "truthy (PStr s) = (s \<noteq> [])"
| "truthy (PList xs) = (xs \<noteq> [])"
| "truthy (PDict d) = (d \<noteq> [])"

subsection \<open>String methods\<close>

text \<open>\<open>s.split(c)\<close> with an explicit one-character separator: every occurrence of the
  separator ends a part, so the result is never empty and has one part more than
  there are separators.\<close>

fun split_on :: "char \<Rightarrow> string \<Rightarrow> string list" where
  "split_on c [] = [[]]"
| "split_on c (x # xs) =
     (if x = c then [] # split_on c xs
      else (case split_on c xs of
              [] \<Rightarrow> [[x]]
            | p # ps \<Rightarrow> (x # p) # ps))"

text \<open>The characters \<open>str.strip()\<close> removes: those for which \<open>str.isspace\<close> holds, among
  the code points below 256.\<close>

definition is_space :: "char \<Rightarrow> bool" where
  "is_space c = ((of_char c :: nat) \<in> {9, 10, 11, 12, 13, 28, 29, 30, 31, 32, 133, 160})"

definition strip :: "string \<Rightarrow> string" where
  "strip s = rev (dropWhile is_space (rev (dropWhile is_space s)))"

text \<open>\<open>sep.join(parts)\<close>.\<close>

fun join :: "string \<Rightarrow> string list \<Rightarrow> string" where
  "join sep [] = []"
| "join sep [p] = p"
| "join sep (p # q # ps) = p @ sep @ join sep (q # ps)"

section \<open>Messages, conversation state and collaborators\<close>

text \<open>A tool call as the reasoner emits it: \<open>call['name']\<close>, \<open>call.get('args', {})\<close>
  (the key may be missing) and \<open>call['id']\<close>.\<close>

record tool_call =
  call_name :: string
  call_args :: "pydict option"
  call_id :: string

text \<open>The messages of the history: the user's prompt, a reasoner response with its text
  and tool calls, and a tool result with its text and the id of the call it answers.\<close>

datatype message =
    HumanMessage string
  | AIMessage string "tool_call list"
  | ToolMessage string string

text \<open>\<open>AgentState\<close>. The key \<open>analysis_result\<close> may be missing from the mapping
  (\<open>None\<close> here); when present its declared type is \<open>Dict[str, Any] | None\<close>, so
  \<open>Some PNone\<close> is a state of the declared type.\<close>

record agent_state =
  messages :: "message list"
  analysis_result :: "pyval option"

text \<open>What \<open>cursor.execute\<close> and \<open>conn.commit\<close> of the insert can do: commit the row,
  fail on a constraint (\<open>sqlite3.IntegrityError\<close>), fail with another \<open>sqlite3.Error\<close>,
  raise an exception that is no \<open>sqlite3.Error\<close> (\<open>OverflowError\<close> on an integer beyond
  64 bits), or \<open>sqlite3.connect\<close> itself fails before \<open>conn\<close> is bound.\<close>

datatype 'db sql_outcome =
    Committed 'db
  | IntegrityError
  | SqliteError string
  | Raised pyexc
  | ConnectFailed string

text \<open>
  The collaborators the code calls but does not define: \<open>ast.literal_eval\<close>, Python's
  \<open>str()\<close> on values and on exceptions, the SQLite table behind the insert, the reasoner
  \<open>llm_with_tools.invoke\<close> (the text and the tool calls of its response), and the
  \<open>invoke\<close> of the three tools whose body the dispatch properties do not depend on
  (argument validation included). The duplicate check only reads the database.
\<close>

record 'db env =
  literal_eval :: "string \<Rightarrow> pyexc + pyval"
  py_str :: "pyval \<Rightarrow> string"
  exc_str :: "pyexc \<Rightarrow> string"
  sql_insert :: "'db \<Rightarrow> pydict \<Rightarrow> 'db sql_outcome"
  llm_with_tools :: "message list \<Rightarrow> pyexc + string \<times> tool_call list"
  analyze_id_card_tool :: "pydict \<Rightarrow> pyexc + pyval"
  check_duplicate_nik_tool :: "'db \<Rightarrow> pydict \<Rightarrow> pyexc + pyval"
  notify_fraud_tool :: "pydict \<Rightarrow> pyexc + pyval"

section \<open>The persistence tool (tools/database\_tools.py)\<close>

text \<open>The rename table from the analysis output's keys to the storage columns, in the
  order the source lists it.\<close>

definition key_mapping :: "(string \<times> string) list" where
  "key_mapping =
    [(''NIK'', ''nik''),
     (''Nama'', ''nama''),
     (''Jenis Kelamin'', ''jenis_kelamin''),
     (''Gol. Darah'', ''gol_darah''),
     (''Alamat'', ''alamat''),
     (''RT/RW'', ''rt_rw''),
     (''Kel/Desa'', ''kel_desa''),
     (''Kecamatan'', ''kecamatan''),
     (''Agama'', ''agama''),
     (''Status Perkawinan'', ''status_perkawinan''),
     (''Kewarganegaraan'', ''kewarganegaraan''),
     (''Berlaku Hingga'', ''berlaku_hingga''),
     (''Place and Date of Creation'', ''place_of_creation'')]"

definition required_db_keys :: "string list" where
  "required_db_keys =
    [''nik'', ''nama'', ''tempat_lahir'', ''tanggal_lahir'', ''jenis_kelamin'', ''alamat'',
     ''rt_rw'', ''kel_desa'', ''kecamatan'', ''agama'', ''status_perkawinan'',
     ''kewarganegaraan'', ''berlaku_hingga'']"

text \<open>The loop over the rename table: \<open>db_record[db_key] = data.get(ai_key)\<close>.\<close>

definition rename_fields :: "pydict \<Rightarrow> pydict" where
  "rename_fields data =
     foldl (\<lambda>db_record (ai_key, db_key). dict_set db_record db_key (dict_get data ai_key))
       [] key_mapping"

text \<open>
  The combined birth field. The branch is taken when the key is in \<open>data\<close> and its value
  is truthy; the value's \<open>split\<close> method exists on strings only, and the source's
  \<open>except Exception\<close> turns the failure on any other value into the tool's error
  result, which is \<open>Inl\<close> here. \<open>parts[0]\<close> is the text before the first comma and
  \<open>parts[1]\<close> the text between the first comma and the second.
\<close>

definition split_birth :: "pydict \<Rightarrow> pydict \<Rightarrow> pydict + pydict" where
  "split_birth data db_record =
     (case map_of data ''Tempat/Tgl Lahir'' of
        None \<Rightarrow> Inr db_record
      | Some v \<Rightarrow>
          if \<not> truthy v then Inr db_record
          else (case v of
                  PStr s \<Rightarrow>
                    (case split_on CHR '','' s of
                       [] \<Rightarrow> Inl [(''status'', PStr ''error''),
                                 (''error'', PStr ''Failed to parse 'Tempat/Tgl Lahir' field.'')]
                     | p0 # rest \<Rightarrow>
                         Inr (dict_set (dict_set db_record ''tempat_lahir'' (PStr (strip p0)))
                                ''tanggal_lahir''
                                (case rest of [] \<Rightarrow> PNone | p1 # _ \<Rightarrow> PStr (strip p1))))
                | _ \<Rightarrow> Inl [(''status'', PStr ''error''),
                            (''error'', PStr ''Failed to parse 'Tempat/Tgl Lahir' field.'')]))"

text \<open>
  The combined issuance field, split at every single space outside any \<open>try\<close>: a truthy
  value that is no string raises \<open>AttributeError\<close> out of the tool. The date column is
  bound only when there is a second part.
\<close>

definition split_creation :: "pydict \<Rightarrow> pyexc + pydict" where
  "split_creation db_record =
     (let v = dict_get db_record ''place_of_creation'' in
      if \<not> truthy v then Inr db_record
      else (case v of
              PStr s \<Rightarrow>
                (case split_on CHR '' '' s of
                   [] \<Rightarrow> Inl IndexError
                 | p0 # rest \<Rightarrow>
                     (let r = dict_set db_record ''place_of_creation'' (PStr (strip p0)) in
                      if rest \<noteq> []
                      then Inr (dict_set r ''date_of_creation'' (PStr (strip (join '' '' rest))))
                      else Inr r))
            | _ \<Rightarrow> Inl AttributeError))"

text \<open>The validation gate: the required columns whose value is missing or falsy.\<close>

definition missing_keys :: "pydict \<Rightarrow> string list" where
  "missing_keys db_record = filter (\<lambda>key. \<not> truthy (dict_get db_record key)) required_db_keys"

definition rejection :: "string list \<Rightarrow> pydict" where
  "rejection missing =
     [(''status'', PStr ''error''),
      (''error'', PStr (''After parsing, required fields are still missing: '' @ join '', '' missing))]"

text \<open>
  \<open>insert_id_card_tool(data)\<close>: rename, split, gate, insert. The result is the returned
  dictionary or the exception that leaves the function, together with the database.
  An exception of the insert that is no \<open>sqlite3.Error\<close> passes both \<open>except\<close> clauses
  and leaves the function. When \<open>sqlite3.connect\<close> fails, \<open>conn\<close> is unbound in the
  \<open>finally\<close> clause and the \<open>UnboundLocalError\<close> raised there replaces the pending
  return.
\<close>

definition insert_id_card_tool :: "'db env \<Rightarrow> 'db \<Rightarrow> pydict \<Rightarrow> (pyexc + pydict) \<times> 'db" where
  "insert_id_card_tool env db data =
     (case split_birth data (rename_fields data) of
        Inl err \<Rightarrow> (Inr err, db)
      | Inr r \<Rightarrow>
          (case split_creation r of
             Inl e \<Rightarrow> (Inl e, db)
           | Inr db_record \<Rightarrow>
               if missing_keys db_record \<noteq> []
               then (Inr (rejection (missing_keys db_record)), db)
               else (case sql_insert env db db_record of
                       Committed db' \<Rightarrow>
                         (Inr [(''status'', PStr ''success''),
                               (''message'', PStr (''Record for NIK ''
                                  @ py_str env (dict_get db_record ''nik'')
                                  @ '' added successfully.''))], db')
                     | IntegrityError \<Rightarrow>
                         (Inr [(''status'', PStr ''error''),
                               (''error'', PStr ''This NIK already exists in the database.'')], db)
                     | SqliteError msg \<Rightarrow>
                         (Inr [(''status'', PStr ''error''), (''error'', PStr msg)], db)
                     | Raised e \<Rightarrow> (Inl e, db)
                     | ConnectFailed msg \<Rightarrow> (Inl UnboundLocalError, db))))"

text \<open>\<open>invoke\<close> of the tool: the arguments are validated against \<open>InsertIdCardInput\<close>
  (a required \<open>data\<close> that is a dictionary) before the function runs.\<close>

definition invoke_insert :: "'db env \<Rightarrow> 'db \<Rightarrow> pydict \<Rightarrow> (pyexc + pyval) \<times> 'db" where
  "invoke_insert env db tool_args =
     (case map_of tool_args ''data'' of
        Some (PDict data) \<Rightarrow>
          (case insert_id_card_tool env db data of
             (Inl e, db') \<Rightarrow> (Inl e, db')
           | (Inr res, db') \<Rightarrow> (Inr (PDict res), db'))
      | _ \<Rightarrow> (Inl ValidationError, db))"

section \<open>The agent workflow (main.py)\<close>

subsection \<open>Tool node\<close>

text \<open>
  \<open>selected_tool = next((t for t in tools if t.name == tool_name), None)\<close> followed by
  \<open>selected_tool.invoke(tool_args)\<close>: the registry holds the four tools; any other name
  raises \<open>ValueError\<close> with the source's message.
\<close>

definition invoke_tool :: "'db env \<Rightarrow> 'db \<Rightarrow> string \<Rightarrow> pydict \<Rightarrow> (pyexc + pyval) \<times> 'db" where
  "invoke_tool env db tool_name tool_args =
     (if tool_name = ''analyze_id_card_tool'' then (analyze_id_card_tool env tool_args, db)
      else if tool_name = ''check_duplicate_nik_tool''
        then (check_duplicate_nik_tool env db tool_args, db)
      else if tool_name = ''insert_id_card_tool'' then invoke_insert env db tool_args
      else if tool_name = ''notify_fraud_tool'' then (notify_fraud_tool env tool_args, db)
      else (Inl (ValueError (''Tool '' @ [CHR 0x27] @ tool_name @ [CHR 0x27] @ '' not found.'')), db))"

text \<open>
  The part of the loop body after the argument repair: look the tool up, invoke it,
  store the analysis tool's output under \<open>state['analysis_result']\<close>, and build the
  \<open>ToolMessage\<close> from \<open>str(output)\<close> and the call's id. The second component is the value
  of \<open>state['analysis_result']\<close> in the mapping the node was given.
\<close>

definition invoke_call ::
  "'db env \<Rightarrow> 'db \<Rightarrow> pyval option \<Rightarrow> tool_call \<Rightarrow> pydict
     \<Rightarrow> (pyexc + message) \<times> pyval option \<times> 'db" where
  "invoke_call env db ar call tool_args =
     (case invoke_tool env db (call_name call) tool_args of
        (Inl e, db') \<Rightarrow> (Inl e, ar, db')
      | (Inr output, db') \<Rightarrow>
          (Inr (ToolMessage (py_str env output) (call_id call)),
           if call_name call = ''analyze_id_card_tool'' then Some output else ar,
           db'))"

text \<open>
  One iteration of \<open>for call in tool_calls\<close>. When the persistence tool's \<open>data\<close> is a
  string it is parsed; \<open>ValueError\<close> and \<open>SyntaxError\<close> are caught and answered with the
  malformed-argument message, any other exception of the parser leaves the node.
  \<open>tool_args['data'] = ...\<close> writes into the argument dictionary of the call itself,
  which is the one held by the last message of the history: the first component of
  the result is the call as it stands after the iteration.
\<close>

definition malformed_data :: string where
  "malformed_data =
     ''Error: The 'data' argument was a malformed string and could not be parsed.''"

definition dispatch_call ::
  "'db env \<Rightarrow> 'db \<Rightarrow> pyval option \<Rightarrow> tool_call
     \<Rightarrow> tool_call \<times> (pyexc + message) \<times> pyval option \<times> 'db" where
  "dispatch_call env db ar call =
     (let tool_args = (case call_args call of None \<Rightarrow> [] | Some a \<Rightarrow> a) in
      case (if call_name call = ''insert_id_card_tool'' then dict_get tool_args ''data''
            else PNone) of
        PStr s \<Rightarrow>
          (case literal_eval env s of
             Inl (ValueError m) \<Rightarrow>
               (call, Inr (ToolMessage malformed_data (call_id call)), ar, db)
           | Inl (SyntaxError m) \<Rightarrow>
               (call, Inr (ToolMessage malformed_data (call_id call)), ar, db)
           | Inl e \<Rightarrow> (call, Inl e, ar, db)
           | Inr v \<Rightarrow>
               (let tool_args' = dict_set tool_args ''data'' v in
                (call\<lparr>call_args := Some tool_args'\<rparr>, invoke_call env db ar call tool_args')))
      | _ \<Rightarrow> (call, invoke_call env db ar call tool_args))"

text \<open>The loop over the batch: the calls as the loop leaves them, then the collected
  \<open>tool_outputs\<close> or the exception that ended the loop, the value stored under
  \<open>analysis_result\<close>, and the database.\<close>

fun dispatch_calls ::
  "'db env \<Rightarrow> 'db \<Rightarrow> pyval option \<Rightarrow> message list \<Rightarrow> tool_call list
     \<Rightarrow> tool_call list \<times> (pyexc + message list) \<times> pyval option \<times> 'db" where
  "dispatch_calls env db ar tool_outputs [] = ([], Inr tool_outputs, ar, db)"
| "dispatch_calls env db ar tool_outputs (call # calls) =
     (case dispatch_call env db ar call of
        (call', Inl e, ar', db') \<Rightarrow> (call' # calls, Inl e, ar', db')
      | (call', Inr out, ar', db') \<Rightarrow>
          (case dispatch_calls env db' ar' (tool_outputs @ [out]) calls of
             (calls', res) \<Rightarrow> (call' # calls', res)))"

text \<open>
  \<open>tool_node(state)\<close>. \<open>state["messages"][-1].tool_calls\<close> raises \<open>IndexError\<close> on an empty
  history and \<open>AttributeError\<close> on a message without tool calls. The node returns the
  update \<open>{"messages": tool_outputs}\<close>; the second component is the \<open>state\<close> mapping it
  was given, as the node leaves it (the last message with its calls after repair, and
  \<open>analysis_result\<close> as assigned).
\<close>

definition tool_node ::
  "'db env \<Rightarrow> 'db \<Rightarrow> agent_state \<Rightarrow> (pyexc + message list) \<times> agent_state \<times> 'db" where
  "tool_node env db state =
     (if messages state = [] then (Inl IndexError, state, db)
      else (case last (messages state) of
              AIMessage content tool_calls \<Rightarrow>
                (case dispatch_calls env db (analysis_result state) [] tool_calls of
                   (calls', res, ar', db') \<Rightarrow>
                     (res,
                      \<lparr>messages = butlast (messages state) @ [AIMessage content calls'],
                       analysis_result = ar'\<rparr>,
                      db'))
            | _ \<Rightarrow> (Inl AttributeError, state, db)))"

subsection \<open>Agent node and router\<close>

text \<open>\<open>agent_node(state)\<close>: the update \<open>{"messages": [response]}\<close>.\<close>

definition agent_node :: "'db env \<Rightarrow> agent_state \<Rightarrow> pyexc + message list" where
  "agent_node env state =
     (case llm_with_tools env (messages state) of
        Inl e \<Rightarrow> Inl e
      | Inr (content, tool_calls) \<Rightarrow> Inr [AIMessage content tool_calls])"

text \<open>
  \<open>router(state)\<close>. \<open>state.get('analysis_result', {})\<close> is the empty dictionary only when the
  key is missing; the \<open>.get('status')\<close> that follows exists on dictionaries only.
\<close>

definition router :: "agent_state \<Rightarrow> pyexc + string" where
  "router state =
     (case (case analysis_result state of None \<Rightarrow> PDict [] | Some v \<Rightarrow> v) of
        PDict d \<Rightarrow>
          (let analysis_status = dict_get d ''status'' in
           if analysis_status = PStr ''success'' then Inr ''check_duplicate_nik_tool''
           else if analysis_status \<in> {PStr ''potential_fraud'', PStr ''image_quality_failure''}
             then Inr ''notify_fraud_tool''
           else Inr ''agent'')
      | _ \<Rightarrow> Inl AttributeError)"

subsection \<open>The compiled graph\<close>

text \<open>
  \<open>graph_builder\<close> registers two nodes, \<open>agent\<close> (the entry point) and \<open>tools\<close>; \<open>router\<close>
  is not registered and no edge names it.
\<close>

datatype node = Agent | Tools

text \<open>
  The reducer of the \<open>messages\<close> channel, \<open>add_messages\<close>, on updates whose messages are
  new (the nodes only return messages they have just built): the update is appended.
\<close>

definition add_messages :: "message list \<Rightarrow> message list \<Rightarrow> message list" where
  "add_messages left right = left @ right"

text \<open>
  The edges; \<open>None\<close> is \<open>END\<close>. After \<open>agent\<close> the conditional edge reads
  \<open>state["messages"][-1].tool_calls\<close>; after \<open>tools\<close> the fixed edge leads to \<open>agent\<close>.
\<close>

fun next_node :: "node \<Rightarrow> agent_state \<Rightarrow> pyexc + node option" where
  "next_node Agent state =
     (if messages state = [] then Inl IndexError
      else (case last (messages state) of
              AIMessage content tool_calls \<Rightarrow>
                Inr (if tool_calls \<noteq> [] then Some Tools else None)
            | _ \<Rightarrow> Inl AttributeError))"
| "next_node Tools state = Inr (Some Agent)"

text \<open>
  One step of the graph: run the node on the current state, merge the update it returns
  into the channels, follow the edge. The result is the streamed event (the node and its
  update), the next node and the new state, or the exception that aborts the run.

  A node is given a mapping built for this call from the channel values. Only the update
  it returns is written to the channels, so the key \<open>analysis_result\<close> that \<open>tool_node\<close>
  assigns in its own mapping does not reach the graph state; the message objects are the
  channel's own, so what \<open>tool_node\<close> writes into the last message's tool calls stays.
\<close>

definition graph_step ::
  "'db env \<Rightarrow> node \<Rightarrow> 'db \<Rightarrow> agent_state
     \<Rightarrow> (pyexc + (node \<times> message list) \<times> node option \<times> agent_state) \<times> 'db" where
  "graph_step env nd db state =
     (case nd of
        Agent \<Rightarrow>
          (case agent_node env state of
             Inl e \<Rightarrow> (Inl e, db)
           | Inr upd \<Rightarrow>
               (let state' = state\<lparr>messages := add_messages (messages state) upd\<rparr> in
                case next_node Agent state' of
                  Inl e \<Rightarrow> (Inl e, db)
                | Inr nxt \<Rightarrow> (Inr ((Agent, upd), nxt, state'), db)))
      | Tools \<Rightarrow>
          (case tool_node env db state of
             (Inl e, local, db') \<Rightarrow> (Inl e, db')
           | (Inr upd, local, db') \<Rightarrow>
               (let state' = \<lparr>messages = add_messages (messages local) upd,
                              analysis_result = analysis_result state\<rparr> in
                case next_node Tools state' of
                  Inl e \<Rightarrow> (Inl e, db')
                | Inr nxt \<Rightarrow> (Inr ((Tools, upd), nxt, state'), db'))))"

text \<open>
  \<open>graph.stream(input, {"recursion_limit": n})\<close>: the events in order, the exception that
  ended the run if any, the last state and the database. The limit counts node
  executions. After each node the graph merges the update and streams the event; it
  then tests the limit before it looks for the next node, so a run whose \<open>n\<close>-th node has
  been executed ends with \<open>GraphRecursionError\<close>, also when that node led to \<open>END\<close>. A run
  ends normally only when a node before the \<open>n\<close>-th leads to \<open>END\<close>. A limit below one
  is refused with \<open>ValueError\<close> before any node runs.
\<close>

fun graph_stream ::
  "'db env \<Rightarrow> nat \<Rightarrow> node \<Rightarrow> 'db \<Rightarrow> agent_state
     \<Rightarrow> (node \<times> message list) list \<times> pyexc option \<times> agent_state \<times> 'db" where
  "graph_stream env 0 nd db state =
     ([], Some (ValueError ''recursion_limit must be at least 1''), state, db)"
| "graph_stream env (Suc n) nd db state =
     (case graph_step env nd db state of
        (Inl e, db') \<Rightarrow> ([], Some e, state, db')
      | (Inr (ev, nxt, state'), db') \<Rightarrow>
          if n = 0 then ([ev], Some GraphRecursionError, state', db')
          else (case nxt of
                  None \<Rightarrow> ([ev], None, state', db')
                | Some nd' \<Rightarrow>
                    (case graph_stream env n nd' db' state' of
                       (evs, res) \<Rightarrow> (ev # evs, res))))"

subsection \<open>The upload endpoint\<close>

definition recursion_limit :: nat where
  "recursion_limit = 15"

definition no_final_response :: string where
  "no_final_response = ''Agent did not produce a final response.''"

text \<open>The body of \<open>for event in events\<close>: an \<open>agent\<close> event whose last message has no tool
  calls and a non-empty text sets the final response.\<close>

fun on_event :: "string \<Rightarrow> node \<times> message list \<Rightarrow> string" where
  "on_event final_response (Agent, msgs) =
     (if msgs = [] then final_response
      else (case last msgs of
              AIMessage content tool_calls \<Rightarrow>
                if tool_calls = [] \<and> content \<noteq> [] then content else final_response
            | _ \<Rightarrow> final_response))"
| "on_event final_response (Tools, msgs) = final_response"

text \<open>
  \<open>upload_file\<close> from the point where the initial message is built: the text of the
  JSON response and the database. An exception of the run, \<open>GraphRecursionError\<close>
  included, is caught by \<open>except Exception\<close> and replaces the response.
\<close>

definition upload_file :: "'db env \<Rightarrow> 'db \<Rightarrow> string \<Rightarrow> string \<times> 'db" where
  "upload_file env db prompt =
     (case graph_stream env recursion_limit Agent db
             \<lparr>messages = add_messages [] [HumanMessage prompt], analysis_result = None\<rparr> of
        (events, None, state, db') \<Rightarrow> (foldl on_event no_final_response events, db')
      | (events, Some e, state, db') \<Rightarrow> (''An error occurred: '' @ exc_str env e, db'))"

subsection \<open>The calls after argument repair\<close>

text \<open>The call as one iteration of the dispatch loop leaves it: the persistence tool's
  \<open>data\<close> replaced by its parsed form when it was a string that parses, the call itself
  otherwise.\<close>

definition repaired_call :: "'db env \<Rightarrow> tool_call \<Rightarrow> tool_call" where
  "repaired_call env call =
     (let tool_args = (case call_args call of None \<Rightarrow> [] | Some a \<Rightarrow> a) in
      case (if call_name call = ''insert_id_card_tool'' then dict_get tool_args ''data''
            else PNone) of
        PStr s \<Rightarrow>
          (case literal_eval env s of
             Inl e \<Rightarrow> call
           | Inr v \<Rightarrow> call\<lparr>call_args := Some (dict_set tool_args ''data'' v)\<rparr>)
      | _ \<Rightarrow> call)"

section \<open>Test doubles and example inputs\<close>

text \<open>
  The theorems below hold for every collaborator. The examples run the code against
  these stand-ins: an in-memory table with the sixteen named parameters of the
  \<open>INSERT\<close> statement, the 64-bit range of its integers and the \<open>UNIQUE\<close> constraint
  on \<open>nik\<close>; a parser table giving what
  \<open>ast.literal_eval\<close> does on four strings; an analysis tool that accepts every image.
\<close>

definition insert_columns :: "string list" where
  "insert_columns =
    [''nik'', ''nama'', ''tempat_lahir'', ''tanggal_lahir'', ''jenis_kelamin'', ''gol_darah'',
     ''alamat'', ''rt_rw'', ''kel_desa'', ''kecamatan'', ''agama'', ''status_perkawinan'',
     ''kewarganegaraan'', ''berlaku_hingga'', ''place_of_creation'', ''date_of_creation'']"

definition table_insert :: "pydict list \<Rightarrow> pydict \<Rightarrow> pydict list sql_outcome" where
  "table_insert rows db_record =
     (if list_ex (\<lambda>c. map_of db_record c = None) insert_columns
      then SqliteError ''You did not supply a value for binding parameter.''
      else if list_ex (\<lambda>(c, v). case v of
                                  PInt i \<Rightarrow> i < - (2 ^ 63) \<or> 2 ^ 63 \<le> i
                                | _ \<Rightarrow> False) db_record
      then Raised OverflowError
      else if list_ex (\<lambda>row. dict_get row ''nik'' = dict_get db_record ''nik'') rows
      then IntegrityError
      else Committed (rows @ [db_record]))"

definition test_literal_eval :: "string \<Rightarrow> pyexc + pyval" where
  "test_literal_eval s =
     (if s = ''{}'' then Inr (PDict [])
      else if s = ''{bad'' then Inl (SyntaxError ''{ was never closed'')
      else if s = ''{[1]: 2}'' then Inl TypeError
      else Inl (ValueError ''malformed node or string''))"

definition test_py_str :: "pyval \<Rightarrow> string" where
  "test_py_str v = (case v of PStr s \<Rightarrow> s | _ \<Rightarrow> ''<object>'')"

definition test_exc_str :: "pyexc \<Rightarrow> string" where
  "test_exc_str e =
     (case e of
        ValueError m \<Rightarrow> m
      | SyntaxError m \<Rightarrow> m
      | OtherException m \<Rightarrow> m
      | GraphRecursionError \<Rightarrow>
          ''Recursion limit of 15 reached without hitting a stop condition.''
      | _ \<Rightarrow> ''error'')"

definition full_fields :: pydict where
  "full_fields =
    [(''NIK'', PStr ''3171234567890123''),
     (''Nama'', PStr ''BUDI SANTOSO''),
     (''Tempat/Tgl Lahir'', PStr ''JAKARTA, 01-01-1990''),
     (''Jenis Kelamin'', PStr ''LAKI-LAKI''),
     (''Gol. Darah'', PStr ''O''),
     (''Alamat'', PStr ''JL. MERDEKA 1''),
     (''RT/RW'', PStr ''001/002''),
     (''Kel/Desa'', PStr ''GAMBIR''),
     (''Kecamatan'', PStr ''GAMBIR''),
     (''Agama'', PStr ''ISLAM''),
     (''Status Perkawinan'', PStr ''KAWIN''),
     (''Kewarganegaraan'', PStr ''WNI''),
     (''Berlaku Hingga'', PStr ''SEUMUR HIDUP''),
     (''Place and Date of Creation'', PStr ''JAKARTA 02-02-2012'')]"

definition success_verdict :: pyval where
  "success_verdict = PDict [(''status'', PStr ''success''), (''data'', PDict full_fields)]"

definition test_env ::
  "(message list \<Rightarrow> pyexc + string \<times> tool_call list) \<Rightarrow> (pydict list) env" where
  "test_env llm =
     \<lparr>literal_eval = test_literal_eval,
      py_str = test_py_str,
      exc_str = test_exc_str,
      sql_insert = table_insert,
      llm_with_tools = llm,
      analyze_id_card_tool = (\<lambda>tool_args. Inr success_verdict),
      check_duplicate_nik_tool = (\<lambda>rows tool_args.
        Inr (PDict [(''status'',
                     PStr (if list_ex (\<lambda>row. dict_get row ''nik'' = dict_get tool_args ''nik'') rows
                           then ''duplicate'' else ''not_found'')),
                    (''nik'', dict_get tool_args ''nik'')])),
      notify_fraud_tool = (\<lambda>tool_args. Inr (PDict [(''status'', PStr ''success'')]))\<rparr>"

text \<open>Three reasoners: one that asks for a duplicate check whatever the history, one
  that asks for the analysis first and then answers, one that answers at once.\<close>

definition check_call :: tool_call where
  "check_call =
     \<lparr>call_name = ''check_duplicate_nik_tool'',
      call_args = Some [(''nik'', PStr ''3171234567890123'')],
      call_id = ''call_1''\<rparr>"

definition analyze_call :: tool_call where
  "analyze_call =
     \<lparr>call_name = ''analyze_id_card_tool'',
      call_args = Some [(''image_path'', PStr ''uploads/ktp.png'')],
      call_id = ''call_0''\<rparr>"

definition insert_call :: "pyval \<Rightarrow> tool_call" where
  "insert_call data =
     \<lparr>call_name = ''insert_id_card_tool'',
      call_args = Some [(''data'', data)],
      call_id = ''call_2''\<rparr>"

definition llm_always_calls :: "message list \<Rightarrow> pyexc + string \<times> tool_call list" where
  "llm_always_calls history = Inr ([], [check_call])"

definition llm_analyze_then_answer :: "message list \<Rightarrow> pyexc + string \<times> tool_call list" where
  "llm_analyze_then_answer history =
     (if length history = 1 then Inr ([], [analyze_call]) else Inr (''KTP valid.'', []))"

definition llm_answers :: "message list \<Rightarrow> pyexc + string \<times> tool_call list" where
  "llm_answers history = Inr (''Selesai.'', [])"

text \<open>The state in which the tool node finds a batch of calls.\<close>

definition dispatching :: "tool_call list \<Rightarrow> agent_state" where
  "dispatching calls =
     \<lparr>messages = [HumanMessage ''File Path: uploads/ktp.png'', AIMessage [] calls],
      analysis_result = None\<rparr>"

text \<open>Field mappings for the persistence tool: the complete one with a trailing blank
  after the issuance place, and with a birth field that has no comma.\<close>

definition fields_empty_issue_date :: pydict where
  "fields_empty_issue_date =
     dict_set full_fields ''Place and Date of Creation'' (PStr ''JAKARTA '')"

definition fields_no_comma :: pydict where
  "fields_no_comma = dict_set full_fields ''Tempat/Tgl Lahir'' (PStr ''JAKARTA'')"

text \<open>The complete mapping with a number under the issuance field, and the same with a
  birth field that has no comma.\<close>

definition fields_numeric_issue :: pydict where
  "fields_numeric_issue = dict_set full_fields ''Place and Date of Creation'' (PInt 2012)"

definition fields_no_comma_numeric_issue :: pydict where
  "fields_no_comma_numeric_issue =
     dict_set fields_no_comma ''Place and Date of Creation'' (PInt 2012)"

text \<open>The complete mapping with an empty religion, with an empty name and religion, and
  with an identity number beyond 64 bits.\<close>

definition fields_no_agama :: pydict where
  "fields_no_agama = dict_set full_fields ''Agama'' (PStr [])"

definition fields_no_nama_agama :: pydict where
  "fields_no_nama_agama = dict_set fields_no_agama ''Nama'' PNone"

definition fields_huge_nik :: pydict where
  "fields_huge_nik = dict_set full_fields ''NIK'' (PInt (2 ^ 63))"

text \<open>A reasoner that asks for a duplicate check seven times and then answers: its run
  needs fifteen nodes.\<close>

definition llm_answers_at_limit :: "message list \<Rightarrow> pyexc + string \<times> tool_call list" where
  "llm_answers_at_limit history =
     (if length history < 15 then Inr ([], [check_call]) else Inr (''Selesai.'', []))"

section \<open>Dictionaries and strings\<close>

lemma dict_get_dict_set:
  "dict_get (dict_set d k v) k' = (if k' = k then v else dict_get d k')"
  by (induction d) (auto simp: dict_get_def)

lemma split_on_nonempty: "split_on c s \<noteq> []"
  by (induction s) (auto split: list.splits)

lemma split_on_no_sep: "c \<notin> set s \<Longrightarrow> split_on c s = [s]"
  by (induction s) auto

lemma takeWhile_no_sep: "c \<notin> set s \<Longrightarrow> takeWhile (\<lambda>x. x \<noteq> c) s = s"
  by (induction s) auto

lemma split_on_first:
  "c \<in> set s \<Longrightarrow>
   split_on c s = takeWhile (\<lambda>x. x \<noteq> c) s # split_on c (tl (dropWhile (\<lambda>x. x \<noteq> c) s))"
  by (induction s) (auto split: list.splits)

text \<open>With a separator in the string, the second part ends at the second separator.\<close>

lemma split_on_second:
  assumes "c \<in> set s"
  shows "\<exists>ps. split_on c s = takeWhile (\<lambda>x. x \<noteq> c) s
            # takeWhile (\<lambda>x. x \<noteq> c) (tl (dropWhile (\<lambda>x. x \<noteq> c) s)) # ps"
proof -
  let ?rest = "tl (dropWhile (\<lambda>x. x \<noteq> c) s)"
  have "\<exists>ps. split_on c ?rest = takeWhile (\<lambda>x. x \<noteq> c) ?rest # ps"
  proof (cases "c \<in> set ?rest")
    case True
    then show ?thesis using split_on_first [of c ?rest] by blast
  next
    case False
    then show ?thesis by (simp add: split_on_no_sep takeWhile_no_sep)
  qed
  then obtain ps where "split_on c ?rest = takeWhile (\<lambda>x. x \<noteq> c) ?rest # ps" ..
  moreover have "split_on c s = takeWhile (\<lambda>x. x \<noteq> c) s # split_on c ?rest"
    using assms by (rule split_on_first)
  ultimately show ?thesis by simp
qed

section \<open>The persistence tool: rename, split and gate\<close>

lemma rename_fields_eq:
  "rename_fields data =
    [(''nik'', dict_get data ''NIK''),
     (''nama'', dict_get data ''Nama''),
     (''jenis_kelamin'', dict_get data ''Jenis Kelamin''),
     (''gol_darah'', dict_get data ''Gol. Darah''),
     (''alamat'', dict_get data ''Alamat''),
     (''rt_rw'', dict_get data ''RT/RW''),
     (''kel_desa'', dict_get data ''Kel/Desa''),
     (''kecamatan'', dict_get data ''Kecamatan''),
     (''agama'', dict_get data ''Agama''),
     (''status_perkawinan'', dict_get data ''Status Perkawinan''),
     (''kewarganegaraan'', dict_get data ''Kewarganegaraan''),
     (''berlaku_hingga'', dict_get data ''Berlaku Hingga''),
     (''place_of_creation'', dict_get data ''Place and Date of Creation'')]"
  by (simp add: rename_fields_def key_mapping_def)

lemma rename_fields_place:
  "dict_get (rename_fields data) ''place_of_creation''
     = dict_get data ''Place and Date of Creation''"
  by (simp add: rename_fields_eq dict_get_def)

lemma split_birth_keeps:
  "split_birth data r = Inr r' \<Longrightarrow> k \<noteq> ''tempat_lahir'' \<Longrightarrow> k \<noteq> ''tanggal_lahir''
     \<Longrightarrow> dict_get r' k = dict_get r k"
  by (auto simp: split_birth_def dict_get_dict_set
           split: option.splits if_splits pyval.splits list.splits)

lemma split_creation_keeps:
  "split_creation r = Inr r' \<Longrightarrow> k \<noteq> ''place_of_creation'' \<Longrightarrow> k \<noteq> ''date_of_creation''
     \<Longrightarrow> dict_get r' k = dict_get r k"
  by (auto simp: split_creation_def Let_def dict_get_dict_set
           split: if_splits pyval.splits list.splits)

lemma split_creation_ok:
  "\<not> truthy (dict_get r ''place_of_creation'') \<or> (\<exists>t. dict_get r ''place_of_creation'' = PStr t)
     \<Longrightarrow> \<exists>r'. split_creation r = Inr r'"
  using split_on_nonempty [of "CHR '' ''"]
  by (auto simp: split_creation_def Let_def split: list.splits)

text \<open>Without a comma the split has one part: the birthplace is the trimmed string and
  the birth date is \<open>None\<close>.\<close>

lemma split_birth_no_comma:
  assumes "map_of data ''Tempat/Tgl Lahir'' = Some (PStr s)" and "s \<noteq> []"
      and "CHR '','' \<notin> set s"
  shows "split_birth data r
           = Inr (dict_set (dict_set r ''tempat_lahir'' (PStr (strip s))) ''tanggal_lahir'' PNone)"
  using assms by (simp add: split_birth_def split_on_no_sep)

text \<open>
  C5, as the code has it. For a non-empty string under \<open>Tempat/Tgl Lahir\<close> the split
  succeeds; the birthplace column is the trimmed text before the first comma; the
  birth-date column is the trimmed text between the first comma and the second one
  (up to the end when there is no second comma), and \<open>None\<close> when the string has no
  comma. The text after a second comma is dropped.
\<close>

theorem split_birth_columns:
  assumes "map_of data ''Tempat/Tgl Lahir'' = Some (PStr s)" and "s \<noteq> []"
  shows "\<exists>r'. split_birth data r = Inr r'
     \<and> dict_get r' ''tempat_lahir'' = PStr (strip (takeWhile (\<lambda>x. x \<noteq> CHR '','') s))
     \<and> dict_get r' ''tanggal_lahir'' =
         (if CHR '','' \<in> set s
          then PStr (strip (takeWhile (\<lambda>x. x \<noteq> CHR '','')
                              (tl (dropWhile (\<lambda>x. x \<noteq> CHR '','') s))))
          else PNone)"
proof (cases "CHR '','' \<in> set s")
  case True
  from split_on_second [OF True] obtain ps where
    "split_on CHR '','' s = takeWhile (\<lambda>x. x \<noteq> CHR '','') s
       # takeWhile (\<lambda>x. x \<noteq> CHR '','') (tl (dropWhile (\<lambda>x. x \<noteq> CHR '','') s)) # ps"
    by blast
  with assms True show ?thesis
    by (simp add: split_birth_def dict_get_dict_set)
next
  case False
  with assms show ?thesis
    by (simp add: split_birth_def split_on_no_sep takeWhile_no_sep dict_get_dict_set)
qed

theorem split_birth_columns_witness:
  "(\<exists>r'. split_birth [(''Tempat/Tgl Lahir'', PStr ''Jakarta, 01-01-1990'')] [] = Inr r'
        \<and> dict_get r' ''tempat_lahir'' = PStr ''Jakarta''
        \<and> dict_get r' ''tanggal_lahir'' = PStr ''01-01-1990'')
   \<and> (\<exists>r'. split_birth [(''Tempat/Tgl Lahir'', PStr ''Jakarta'')] [] = Inr r'
        \<and> dict_get r' ''tempat_lahir'' = PStr ''Jakarta''
        \<and> dict_get r' ''tanggal_lahir'' = PNone)"
  using
    split_birth_columns [of "[(''Tempat/Tgl Lahir'', PStr ''Jakarta, 01-01-1990'')]"
      "''Jakarta, 01-01-1990''" "[]"]
    split_birth_columns [of "[(''Tempat/Tgl Lahir'', PStr ''Jakarta'')]" "''Jakarta''" "[]"]
  by (simp add: strip_def is_space_def)

text \<open>The claim's "entire remainder after the first comma" fails on a string with two
  commas: the birth-date column holds the middle part only.\<close>

theorem birth_date_not_remainder:
  "split_birth [(''Tempat/Tgl Lahir'', PStr ''Jakarta, 01-01-1990, WNI'')] []
     = Inr [(''tempat_lahir'', PStr ''Jakarta''), (''tanggal_lahir'', PStr ''01-01-1990'')]
   \<and> strip (tl (dropWhile (\<lambda>x. x \<noteq> CHR '','') ''Jakarta, 01-01-1990, WNI''))
     = ''01-01-1990, WNI''"
  by (simp add: split_birth_def strip_def is_space_def)

text \<open>After the two splits, each column that is renamed from a single input field holds
  that field's value.\<close>

lemma renamed_columns:
  assumes "split_birth data (rename_fields data) = Inr r"
      and "split_creation r = Inr db_record"
  shows "\<forall>(ai_key, db_key) \<in> set
            [(''NIK'', ''nik''), (''Nama'', ''nama''), (''Jenis Kelamin'', ''jenis_kelamin''),
             (''Gol. Darah'', ''gol_darah''), (''Alamat'', ''alamat''), (''RT/RW'', ''rt_rw''),
             (''Kel/Desa'', ''kel_desa''), (''Kecamatan'', ''kecamatan''), (''Agama'', ''agama''),
             (''Status Perkawinan'', ''status_perkawinan''),
             (''Kewarganegaraan'', ''kewarganegaraan''),
             (''Berlaku Hingga'', ''berlaku_hingga'')].
           dict_get db_record db_key = dict_get data ai_key"
proof -
  have "dict_get db_record k = dict_get (rename_fields data) k"
    if "k \<noteq> ''place_of_creation''" "k \<noteq> ''date_of_creation''"
       "k \<noteq> ''tempat_lahir''" "k \<noteq> ''tanggal_lahir''" for k
    using split_creation_keeps [OF assms(2), of k] split_birth_keeps [OF assms(1), of k] that
    by simp
  then show ?thesis
    by (simp add: rename_fields_eq dict_get_def)
qed

text \<open>
  C4, as the code has it. When the two splits go through, the gate is all-or-nothing
  over thirteen columns: \<open>nik\<close>, \<open>nama\<close>, \<open>tempat_lahir\<close>, \<open>tanggal_lahir\<close>,
  \<open>jenis_kelamin\<close>, \<open>alamat\<close>, \<open>rt_rw\<close>, \<open>kel_desa\<close>, \<open>kecamatan\<close>, \<open>agama\<close>,
  \<open>status_perkawinan\<close>, \<open>kewarganegaraan\<close>, \<open>berlaku_hingga\<close>; the blood type, the
  issuance place and the issuance date are not among them. If one of the thirteen is
  missing or falsy, the tool returns the error result whose text lists exactly those
  columns, in this order, and the database is the one it was given. Otherwise the record
  goes to the insert, whose outcome decides the result: success with the new database,
  an error result with the database unchanged, or an exception that leaves the tool.
  Eleven of the thirteen columns hold the value of the input field they are renamed from.
\<close>

theorem validation_gate:
  assumes "split_birth data (rename_fields data) = Inr r"
      and "split_creation r = Inr db_record"
  shows "insert_id_card_tool env db data =
           (if \<exists>key \<in> set [''nik'', ''nama'', ''tempat_lahir'', ''tanggal_lahir'',
                              ''jenis_kelamin'', ''alamat'', ''rt_rw'', ''kel_desa'',
                              ''kecamatan'', ''agama'', ''status_perkawinan'',
                              ''kewarganegaraan'', ''berlaku_hingga''].
                 \<not> truthy (dict_get db_record key)
            then (Inr [(''status'', PStr ''error''),
                       (''error'', PStr (''After parsing, required fields are still missing: ''
                          @ join '', ''
                              (filter (\<lambda>key. \<not> truthy (dict_get db_record key))
                                 [''nik'', ''nama'', ''tempat_lahir'', ''tanggal_lahir'',
                                  ''jenis_kelamin'', ''alamat'', ''rt_rw'', ''kel_desa'',
                                  ''kecamatan'', ''agama'', ''status_perkawinan'',
                                  ''kewarganegaraan'', ''berlaku_hingga''])))], db)
            else (case sql_insert env db db_record of
                    Committed db' \<Rightarrow>
                      (Inr [(''status'', PStr ''success''),
                            (''message'', PStr (''Record for NIK ''
                               @ py_str env (dict_get db_record ''nik'')
                               @ '' added successfully.''))], db')
                  | IntegrityError \<Rightarrow>
                      (Inr [(''status'', PStr ''error''),
                            (''error'', PStr ''This NIK already exists in the database.'')], db)
                  | SqliteError msg \<Rightarrow>
                      (Inr [(''status'', PStr ''error''), (''error'', PStr msg)], db)
                  | Raised e \<Rightarrow> (Inl e, db)
                  | ConnectFailed msg \<Rightarrow> (Inl UnboundLocalError, db)))
     \<and> (\<forall>(ai_key, db_key) \<in> set
            [(''NIK'', ''nik''), (''Nama'', ''nama''), (''Jenis Kelamin'', ''jenis_kelamin''),
             (''Alamat'', ''alamat''), (''RT/RW'', ''rt_rw''),
             (''Kel/Desa'', ''kel_desa''), (''Kecamatan'', ''kecamatan''), (''Agama'', ''agama''),
             (''Status Perkawinan'', ''status_perkawinan''),
             (''Kewarganegaraan'', ''kewarganegaraan''),
             (''Berlaku Hingga'', ''berlaku_hingga'')].
           dict_get db_record db_key = dict_get data ai_key)"
proof -
  have k: "required_db_keys = [''nik'', ''nama'', ''tempat_lahir'', ''tanggal_lahir'',
                              ''jenis_kelamin'', ''alamat'', ''rt_rw'', ''kel_desa'',
                              ''kecamatan'', ''agama'', ''status_perkawinan'',
                              ''kewarganegaraan'', ''berlaku_hingga'']"
    by (simp add: required_db_keys_def)
  have "(missing_keys db_record \<noteq> []) =
        (\<exists>key \<in> set required_db_keys. \<not> truthy (dict_get db_record key))"
    unfolding missing_keys_def by (simp add: filter_empty_conv)
  then have "insert_id_card_tool env db data =
           (if \<exists>key \<in> set required_db_keys. \<not> truthy (dict_get db_record key)
            then (Inr [(''status'', PStr ''error''),
                       (''error'', PStr (''After parsing, required fields are still missing: ''
                          @ join '', ''
                              (filter (\<lambda>key. \<not> truthy (dict_get db_record key))
                                 required_db_keys)))], db)
            else (case sql_insert env db db_record of
                    Committed db' \<Rightarrow>
                      (Inr [(''status'', PStr ''success''),
                            (''message'', PStr (''Record for NIK ''
                               @ py_str env (dict_get db_record ''nik'')
                               @ '' added successfully.''))], db')
                  | IntegrityError \<Rightarrow>
                      (Inr [(''status'', PStr ''error''),
                            (''error'', PStr ''This NIK already exists in the database.'')], db)
                  | SqliteError msg \<Rightarrow>
                      (Inr [(''status'', PStr ''error''), (''error'', PStr msg)], db)
                  | Raised e \<Rightarrow> (Inl e, db)
                  | ConnectFailed msg \<Rightarrow> (Inl UnboundLocalError, db)))"
    using assms by (simp add: insert_id_card_tool_def missing_keys_def rejection_def)
  moreover from renamed_columns [OF assms]
  have "\<forall>(ai_key, db_key) \<in> set
            [(''NIK'', ''nik''), (''Nama'', ''nama''), (''Jenis Kelamin'', ''jenis_kelamin''),
             (''Alamat'', ''alamat''), (''RT/RW'', ''rt_rw''),
             (''Kel/Desa'', ''kel_desa''), (''Kecamatan'', ''kecamatan''), (''Agama'', ''agama''),
             (''Status Perkawinan'', ''status_perkawinan''),
             (''Kewarganegaraan'', ''kewarganegaraan''),
             (''Berlaku Hingga'', ''berlaku_hingga'')].
           dict_get db_record db_key = dict_get data ai_key"
    by simp
  ultimately show ?thesis unfolding k by blast
qed

text \<open>The gate at three mappings: with the name missing and the religion empty the
  rejection lists these two columns and nothing is stored; the complete mapping is
  stored; an identity number beyond 64 bits passes the gate and the insert raises
  \<open>OverflowError\<close> out of the tool.\<close>

theorem validation_gate_witness:
  "insert_id_card_tool (test_env llm_answers) [] fields_no_nama_agama
     = (Inr [(''status'', PStr ''error''),
             (''error'', PStr ''After parsing, required fields are still missing: nama, agama'')],
        [])
   \<and> fst (insert_id_card_tool (test_env llm_answers) [] full_fields)
     = Inr [(''status'', PStr ''success''),
            (''message'', PStr ''Record for NIK 3171234567890123 added successfully.'')]
   \<and> map (\<lambda>row. dict_get row ''nik'') (snd (insert_id_card_tool (test_env llm_answers) [] full_fields))
     = [PStr ''3171234567890123'']
   \<and> insert_id_card_tool (test_env llm_answers) [] fields_huge_nik = (Inl OverflowError, [])"
proof -
  let ?E = "test_env llm_answers"
  let ?r = "\<lambda>data. projr (split_birth data (rename_fields data))"
  let ?rec = "\<lambda>data. projr (split_creation (?r data))"
  have a1: "split_birth fields_no_nama_agama (rename_fields fields_no_nama_agama)
              = Inr (?r fields_no_nama_agama)" by code_simp
  have a2: "split_creation (?r fields_no_nama_agama) = Inr (?rec fields_no_nama_agama)"
    by code_simp
  have b1: "split_birth full_fields (rename_fields full_fields) = Inr (?r full_fields)"
    by code_simp
  have b2: "split_creation (?r full_fields) = Inr (?rec full_fields)" by code_simp
  have c1: "split_birth fields_huge_nik (rename_fields fields_huge_nik)
              = Inr (?r fields_huge_nik)" by code_simp
  have c2: "split_creation (?r fields_huge_nik) = Inr (?rec fields_huge_nik)" by code_simp
  note ga = validation_gate [OF a1 a2, of ?E "[]"]
   and gb = validation_gate [OF b1 b2, of ?E "[]"]
   and gc = validation_gate [OF c1 c2, of ?E "[]"]
  have va: "insert_id_card_tool ?E [] fields_no_nama_agama
     = (Inr [(''status'', PStr ''error''),
             (''error'', PStr ''After parsing, required fields are still missing: nama, agama'')],
        [])" by code_simp
  have vb: "fst (insert_id_card_tool ?E [] full_fields)
     = Inr [(''status'', PStr ''success''),
            (''message'', PStr ''Record for NIK 3171234567890123 added successfully.'')]"
    by code_simp
  have vb': "map (\<lambda>row. dict_get row ''nik'') (snd (insert_id_card_tool ?E [] full_fields))
     = [PStr ''3171234567890123'']" by code_simp
  have vc: "insert_id_card_tool ?E [] fields_huge_nik = (Inl OverflowError, [])" by code_simp
  from ga gb gc va vb vb' vc show ?thesis by blast
qed

text \<open>The claim's required set fails on the issuance date: a mapping whose issuance
  field is a place followed by a blank passes the gate and is inserted with an empty
  issuance date.\<close>

theorem empty_issue_date_inserted:
  "fst (insert_id_card_tool (test_env llm_answers) [] fields_empty_issue_date)
      = Inr [(''status'', PStr ''success''),
             (''message'', PStr ''Record for NIK 3171234567890123 added successfully.'')]
   \<and> map (\<lambda>row. dict_get row ''date_of_creation'')
         (snd (insert_id_card_tool (test_env llm_answers) [] fields_empty_issue_date))
       = [PStr []]"
  by code_simp

text \<open>
  C10. When the value under \<open>Tempat/Tgl Lahir\<close> is a string without a comma, and the
  issuance field is missing, falsy or a string (so that its split does not fail), the
  tool returns the rejection, its list of missing columns holds \<open>tanggal_lahir\<close>, and
  the database is the one it was given.
\<close>

text \<open>
  A birth field without a comma. When the value under \<open>Tempat/Tgl Lahir\<close> is a string
  without a comma, and the issuance field is missing, falsy or a string (so that its
  split does not fail), the tool returns the rejection, its list of missing columns
  holds \<open>tanggal_lahir\<close>, and the database is the one it was given.
\<close>

lemma comma_less_text_rejected:
  assumes "map_of data ''Tempat/Tgl Lahir'' = Some (PStr s)"
      and "CHR '','' \<notin> set s"
      and "\<not> truthy (dict_get data ''Place and Date of Creation'')
           \<or> (\<exists>t. dict_get data ''Place and Date of Creation'' = PStr t)"
  shows "\<exists>missing. insert_id_card_tool env db data
             = (Inr [(''status'', PStr ''error''),
                     (''error'', PStr (''After parsing, required fields are still missing: ''
                                        @ join '', '' missing))], db)
           \<and> ''tanggal_lahir'' \<in> set missing"
proof -
  obtain r where r: "split_birth data (rename_fields data) = Inr r"
    and tgl: "dict_get r ''tanggal_lahir'' = PNone"
  proof (cases "s = []")
    case True
    with assms(1) have "split_birth data (rename_fields data) = Inr (rename_fields data)"
      by (simp add: split_birth_def)
    moreover have "dict_get (rename_fields data) ''tanggal_lahir'' = PNone"
      by (simp add: rename_fields_eq dict_get_def)
    ultimately show ?thesis using that by blast
  next
    case False
    from split_birth_no_comma [OF assms(1) False assms(2), of "rename_fields data"]
    show ?thesis using that by (simp add: dict_get_dict_set)
  qed
  have "dict_get r ''place_of_creation'' = dict_get data ''Place and Date of Creation''"
    using split_birth_keeps [OF r, of "''place_of_creation''"] rename_fields_place by simp
  with assms(3) obtain db_record where c: "split_creation r = Inr db_record"
    using split_creation_ok [of r] by auto
  have "dict_get db_record ''tanggal_lahir'' = PNone"
    using split_creation_keeps [OF c, of "''tanggal_lahir''"] tgl by simp
  then have "''tanggal_lahir'' \<in> set (missing_keys db_record)"
    by (simp add: missing_keys_def required_db_keys_def)
  moreover from this have "missing_keys db_record \<noteq> []" by auto
  ultimately show ?thesis
    using r c by (auto simp: insert_id_card_tool_def rejection_def)
qed

lemma comma_less_text_rejected_example:
  "insert_id_card_tool (test_env llm_answers) [] fields_no_comma
     = (Inr [(''status'', PStr ''error''),
             (''error'', PStr ''After parsing, required fields are still missing: tanggal_lahir'')],
        [])"
  by code_simp

text \<open>
  C10, at the input where the code fails. On the otherwise complete mapping with the
  birth field \<open>JAKARTA\<close> (no comma) and the number 2012 under the issuance field, the
  issuance split, which runs before the gate, raises \<open>AttributeError\<close> out of the tool:
  no rejection is returned. The database is the one the tool was given, for every
  storage.
\<close>

theorem comma_less_numeric_issue_raises:
  "insert_id_card_tool env db fields_no_comma_numeric_issue = (Inl AttributeError, db)"
proof -
  define r where "r = projr (split_birth fields_no_comma_numeric_issue
                               (rename_fields fields_no_comma_numeric_issue))"
  have "split_birth fields_no_comma_numeric_issue (rename_fields fields_no_comma_numeric_issue)
          = Inr r"
    unfolding r_def by code_simp
  moreover have "split_creation r = Inl AttributeError"
    unfolding r_def by code_simp
  ultimately show ?thesis
    by (simp add: insert_id_card_tool_def)
qed

section \<open>The router\<close>

text \<open>What the router returns when the key \<open>analysis_result\<close> is missing and when it
  holds a dictionary: the three targets, by the dictionary's \<open>status\<close>.\<close>

lemma router_cases:
  "router \<lparr>messages = ms, analysis_result = None\<rparr> = Inr ''agent''
   \<and> router \<lparr>messages = ms, analysis_result = Some (PDict d)\<rparr>
     = Inr (if dict_get d ''status'' = PStr ''success'' then ''check_duplicate_nik_tool''
            else if dict_get d ''status'' = PStr ''potential_fraud''
                    \<or> dict_get d ''status'' = PStr ''image_quality_failure''
              then ''notify_fraud_tool''
            else ''agent'')"
  by (simp add: router_def dict_get_def)

text \<open>
  C1, at the input where the code fails. A state of the declared type whose
  \<open>analysis_result\<close> is \<open>None\<close> (no verdict yet) makes the router raise
  \<open>AttributeError\<close>: the default \<open>{}\<close> of \<open>state.get\<close> applies to a missing key only.
\<close>

theorem router_on_None:
  "router \<lparr>messages = [], analysis_result = Some PNone\<rparr> = Inl AttributeError"
  by (simp add: router_def)

section \<open>The dispatch loop\<close>

lemma dispatch_call_call:
  "fst (dispatch_call env db ar call) = repaired_call env call"
  by (auto simp: dispatch_call_def repaired_call_def Let_def
           split: pyval.splits sum.splits pyexc.splits)

lemma dispatch_calls_result:
  "dispatch_calls env db ar outs calls = (calls', Inr res, ar', db')
     \<Longrightarrow> calls' = map (repaired_call env) calls
        \<and> (\<exists>new. res = outs @ new \<and> length new = length calls)"
proof (induction calls arbitrary: db ar outs calls')
  case Nil
  then show ?case by simp
next
  case (Cons call calls)
  obtain c' r ar1 db1 where d: "dispatch_call env db ar call = (c', r, ar1, db1)"
    by (cases "dispatch_call env db ar call") auto
  then have c': "c' = repaired_call env call"
    using dispatch_call_call [of env db ar call] by simp
  from Cons.prems d obtain out where r: "r = Inr out"
    by (cases r) auto
  obtain cs' rest where rec:
    "dispatch_calls env db1 ar1 (outs @ [out]) calls = (cs', rest)"
    by (cases "dispatch_calls env db1 ar1 (outs @ [out]) calls") auto
  with Cons.prems d r have eq: "calls' = c' # cs'" "rest = (Inr res, ar', db')"
    by auto
  from Cons.IH [of db1 ar1 "outs @ [out]" cs'] rec eq
  have "cs' = map (repaired_call env) calls"
    and "\<exists>new. res = (outs @ [out]) @ new \<and> length new = length calls"
    by auto
  then show ?case using eq c' by auto
qed

lemma tool_node_result:
  assumes "tool_node env db state = (Inr upd, local, db')"
  shows "messages state \<noteq> []
     \<and> (\<exists>content calls. last (messages state) = AIMessage content calls
          \<and> messages local
              = butlast (messages state) @ [AIMessage content (map (repaired_call env) calls)]
          \<and> length upd = length calls)"
proof -
  from assms have ne: "messages state \<noteq> []"
    by (auto simp: tool_node_def split: if_splits)
  from assms ne obtain content calls where l: "last (messages state) = AIMessage content calls"
    by (cases "last (messages state)") (auto simp: tool_node_def)
  obtain calls' res ar' db1 where
    d: "dispatch_calls env db (analysis_result state) [] calls = (calls', res, ar', db1)"
    by (cases "dispatch_calls env db (analysis_result state) [] calls") auto
  with assms ne l have "res = Inr upd"
    and loc: "local = \<lparr>messages = butlast (messages state) @ [AIMessage content calls'],
                        analysis_result = ar'\<rparr>"
    by (auto simp: tool_node_def)
  with d dispatch_calls_result [of env db "analysis_result state" "[]" calls calls' upd ar' db1]
  have "calls' = map (repaired_call env) calls" "length upd = length calls"
    by auto
  with ne l loc show ?thesis by simp
qed


text \<open>A string that the parser rejects with \<open>ValueError\<close> or \<open>SyntaxError\<close> is answered
  with the malformed-argument message under the call's id; the tool is not invoked, the
  state and the database are untouched, and the loop goes on with the next call.\<close>

lemma malformed_data_answered:
  assumes "call_name call = ''insert_id_card_tool''"
      and "dict_get (case call_args call of None \<Rightarrow> [] | Some a \<Rightarrow> a) ''data'' = PStr s"
      and "literal_eval env s = Inl (ValueError m) \<or> literal_eval env s = Inl (SyntaxError m)"
  shows "dispatch_call env db ar call
           = (call, Inr (ToolMessage malformed_data (call_id call)), ar, db)
     \<and> dispatch_calls env db ar outs (call # calls)
           = (case dispatch_calls env db ar
                     (outs @ [ToolMessage malformed_data (call_id call)]) calls of
                (calls', res) \<Rightarrow> (call # calls', res))"
proof -
  from assms have "dispatch_call env db ar call
           = (call, Inr (ToolMessage malformed_data (call_id call)), ar, db)"
    by (auto simp: dispatch_call_def)
  then show ?thesis by simp
qed

lemma malformed_data_answered_example:
  "tool_node (test_env llm_answers) [] (dispatching [insert_call (PStr ''{bad''), check_call])
     = (Inr [ToolMessage malformed_data ''call_2'', ToolMessage ''<object>'' ''call_1''],
        dispatching [insert_call (PStr ''{bad''), check_call],
        [])"
proof -
  have "tool_node (test_env llm_answers) [] (dispatching [insert_call (PStr ''{bad''), check_call])
     = (Inr [ToolMessage malformed_data ''call_2'', ToolMessage ''<object>'' ''call_1''],
        dispatching [insert_call (PStr ''{bad''), check_call],
        [])"
    by code_simp
  with malformed_data_answered [of "insert_call (PStr ''{bad'')" "''{bad''"
      "test_env llm_answers" "''{ was never closed''" "[]" None "[]" "[check_call]"]
  show ?thesis by simp
qed

text \<open>Any other exception of the parser, and any exception of the invoked tool, ends
  the iteration with that exception: the loop body has no other handler.\<close>

lemma parser_exception_escapes:
  assumes "call_name call = ''insert_id_card_tool''"
      and "dict_get (case call_args call of None \<Rightarrow> [] | Some a \<Rightarrow> a) ''data'' = PStr s"
      and "literal_eval env s = Inl e"
      and "\<forall>m. e \<noteq> ValueError m" and "\<forall>m. e \<noteq> SyntaxError m"
  shows "dispatch_call env db ar call = (call, Inl e, ar, db)"
  using assms by (cases e) (auto simp: dispatch_call_def)

lemma tool_exception_escapes:
  assumes "invoke_tool env db (call_name call) tool_args = (Inl e, db')"
  shows "invoke_call env db ar call tool_args = (Inl e, ar, db')"
  using assms by (simp add: invoke_call_def)

lemma dispatch_calls_stops:
  assumes "dispatch_call env db ar call = (call', Inl e, ar', db')"
  shows "dispatch_calls env db ar outs (call # calls) = (call' # calls, Inl e, ar', db')"
  using assms by simp

text \<open>
  C6, at the input where the code fails. \<open>ast.literal_eval\<close> raises \<open>TypeError\<close> on the
  string \<open>{[1]: 2}\<close> (a list as a dictionary key); the handler names \<open>ValueError\<close> and
  \<open>SyntaxError\<close> only, so the exception leaves the tool node: no tool result is
  built for the call and the call after it is not processed.
\<close>

theorem parser_TypeError_escapes:
  "fst (tool_node (test_env llm_answers) []
          (dispatching [insert_call (PStr ''{[1]: 2}''), check_call]))
     = Inl TypeError"
  by code_simp

text \<open>
  C7, at the input where the code fails. An issuance field that is a number makes
  \<open>.split(' ')\<close> raise \<open>AttributeError\<close> inside the persistence tool, outside its
  \<open>try\<close>; nothing between the tool and the graph catches it, so it leaves the tool
  node and aborts the run, which \<open>upload_file\<close> reports.
\<close>

theorem issuance_split_escapes:
  "fst (tool_node (test_env llm_answers) []
          (dispatching [insert_call (PDict fields_numeric_issue)]))
     = Inl AttributeError
   \<and> upload_file (test_env (\<lambda>h. Inr ([], [insert_call (PDict fields_numeric_issue)]))) [] ''p''
     = (''An error occurred: error'', [])"
  by code_simp

section \<open>The steps of the graph\<close>

lemma graph_step_tools:
  assumes "graph_step env Tools db state = (Inr (ev, nxt, state'), db')"
  shows "nxt = Some Agent \<and> analysis_result state' = analysis_result state
     \<and> fst ev = Tools \<and> messages state \<noteq> []
     \<and> (\<exists>content calls. last (messages state) = AIMessage content calls
          \<and> messages state'
              = butlast (messages state) @ [AIMessage content (map (repaired_call env) calls)]
                  @ snd ev)"
proof -
  obtain r local db1 where t: "tool_node env db state = (r, local, db1)"
    by (cases "tool_node env db state") auto
  with assms obtain upd where r: "r = Inr upd"
    by (cases r) (auto simp: graph_step_def)
  from assms t r have "nxt = Some Agent" "ev = (Tools, upd)"
    "state' = \<lparr>messages = messages local @ upd, analysis_result = analysis_result state\<rparr>"
    by (auto simp: graph_step_def add_messages_def)
  with tool_node_result [of env db state upd local db1] t r show ?thesis by auto
qed

lemma graph_step_agent:
  assumes "graph_step env Agent db state = (Inr (ev, nxt, state'), db')"
  shows "db' = db \<and> analysis_result state' = analysis_result state
     \<and> (\<exists>content calls. llm_with_tools env (messages state) = Inr (content, calls)
          \<and> ev = (Agent, [AIMessage content calls])
          \<and> messages state' = messages state @ [AIMessage content calls]
          \<and> nxt = (if calls \<noteq> [] then Some Tools else None))"
proof -
  from assms obtain content calls where
    l: "llm_with_tools env (messages state) = Inr (content, calls)"
    by (cases "llm_with_tools env (messages state)")
       (auto simp: graph_step_def agent_node_def)
  with assms have "db' = db" "ev = (Agent, [AIMessage content calls])"
    "state' = state\<lparr>messages := messages state @ [AIMessage content calls]\<rparr>"
    "nxt = (if calls \<noteq> [] then Some Tools else None)"
    by (auto simp: graph_step_def agent_node_def add_messages_def Let_def split: if_splits)
  with l show ?thesis by simp
qed

lemma graph_step_keeps_analysis_result:
  "graph_step env nd db state = (Inr (ev, nxt, state'), db')
     \<Longrightarrow> analysis_result state' = analysis_result state"
  using graph_step_agent [of env db state ev nxt state' db']
        graph_step_tools [of env db state ev nxt state' db']
  by (cases nd) auto

text \<open>
  C2, as the code has it. The edges of the compiled graph do not consult the router:
  after the tool node the next step is always the agent, whatever the batch produced;
  after the agent node it is the tool node when the response carries tool calls and
  the end of the run otherwise.
\<close>

theorem edges_fixed:
  assumes "graph_step env nd db state = (Inr (ev, nxt, state'), db')"
  shows "(nd = Tools \<longrightarrow> nxt = Some Agent)
     \<and> (nd = Agent \<longrightarrow>
          (\<exists>content calls. llm_with_tools env (messages state) = Inr (content, calls)
             \<and> nxt = (if calls \<noteq> [] then Some Tools else None)))"
proof (cases nd)
  case Agent
  with assms have "\<exists>content calls. llm_with_tools env (messages state) = Inr (content, calls)
             \<and> nxt = (if calls \<noteq> [] then Some Tools else None)"
    using graph_step_agent [of env db state ev nxt state' db'] by blast
  with Agent show ?thesis by simp
next
  case Tools
  with assms graph_step_tools [of env db state ev nxt state' db'] show ?thesis by auto
qed

theorem edges_fixed_witness:
  "graph_step (test_env llm_answers) Tools [] (dispatching [analyze_call])
     = (Inr ((Tools, [ToolMessage ''<object>'' ''call_0'']), Some Agent,
            \<lparr>messages = messages (dispatching [analyze_call])
                          @ [ToolMessage ''<object>'' ''call_0''],
             analysis_result = None\<rparr>), [])
   \<and> graph_step (test_env llm_always_calls) Agent []
        \<lparr>messages = [HumanMessage ''p''], analysis_result = None\<rparr>
     = (Inr ((Agent, [AIMessage [] [check_call]]), Some Tools,
            \<lparr>messages = [HumanMessage ''p'', AIMessage [] [check_call]],
             analysis_result = None\<rparr>), [])"
proof -
  have a: "graph_step (test_env llm_answers) Tools [] (dispatching [analyze_call])
     = (Inr ((Tools, [ToolMessage ''<object>'' ''call_0'']), Some Agent,
            \<lparr>messages = messages (dispatching [analyze_call])
                          @ [ToolMessage ''<object>'' ''call_0''],
             analysis_result = None\<rparr>), [])"
    by code_simp
  have b: "graph_step (test_env llm_always_calls) Agent []
        \<lparr>messages = [HumanMessage ''p''], analysis_result = None\<rparr>
     = (Inr ((Agent, [AIMessage [] [check_call]]), Some Tools,
            \<lparr>messages = [HumanMessage ''p'', AIMessage [] [check_call]],
             analysis_result = None\<rparr>), [])"
    by code_simp
  from edges_fixed [OF a] edges_fixed [OF b] a b show ?thesis by simp
qed

text \<open>The claim fails after a batch that ran the analysis tool with verdict
  \<open>success\<close>: the router, applied to the state that holds the verdict, names the
  duplicate check, and the graph goes to the agent.\<close>

theorem router_verdict_not_followed:
  "router (fst (snd (tool_node (test_env llm_answers) [] (dispatching [analyze_call]))))
     = Inr ''check_duplicate_nik_tool''
   \<and> fst (graph_step (test_env llm_answers) Tools [] (dispatching [analyze_call]))
     = Inr ((Tools, [ToolMessage ''<object>'' ''call_0'']), Some Agent,
            \<lparr>messages = messages (dispatching [analyze_call])
                          @ [ToolMessage ''<object>'' ''call_0''],
             analysis_result = None\<rparr>)"
  by code_simp

text \<open>
  C3, at the input where the code fails. The tool node stores the verdict under
  \<open>analysis_result\<close> of the mapping it was given and returns the update
  \<open>{"messages": tool_outputs}\<close> alone; in the run below the analysis tool completes
  and the state of the graph still has no \<open>analysis_result\<close> at the end.
\<close>

theorem analysis_result_not_captured:
  "analysis_result (fst (snd (tool_node (test_env llm_analyze_then_answer) []
       (dispatching [analyze_call])))) = Some success_verdict
   \<and> graph_stream (test_env llm_analyze_then_answer) recursion_limit Agent []
        \<lparr>messages = [HumanMessage ''File Path: uploads/ktp.png''], analysis_result = None\<rparr>
     = ([(Agent, [AIMessage [] [analyze_call]]),
         (Tools, [ToolMessage ''<object>'' ''call_0'']),
         (Agent, [AIMessage ''KTP valid.'' []])],
        None,
        \<lparr>messages = [HumanMessage ''File Path: uploads/ktp.png'',
                      AIMessage [] [analyze_call],
                      ToolMessage ''<object>'' ''call_0'',
                      AIMessage ''KTP valid.'' []],
         analysis_result = None\<rparr>,
        [])"
  by code_simp

text \<open>
  C9, as the code has it. A step never removes or reorders messages and never shortens
  the history. The agent step appends its response to the unchanged history. The tool
  step appends its results and leaves every message before the last one unchanged; the
  last one, the response being dispatched, keeps its text and its calls in order, but a
  persistence call whose \<open>data\<close> string was parsed now carries the parsed value.
\<close>

theorem history_kept:
  assumes "graph_step env nd db state = (Inr (ev, nxt, state'), db')"
  shows "prefix (butlast (messages state)) (messages state')
     \<and> length (messages state) \<le> length (messages state')
     \<and> (nd = Agent \<longrightarrow> messages state' = messages state @ snd ev)
     \<and> (nd = Tools \<longrightarrow>
          (\<exists>content calls. last (messages state) = AIMessage content calls
             \<and> messages state'
                 = butlast (messages state)
                     @ [AIMessage content (map (repaired_call env) calls)] @ snd ev))"
proof (cases nd)
  case Agent
  with assms graph_step_agent [of env db state ev nxt state' db']
  obtain content calls where
    "ev = (Agent, [AIMessage content calls])"
    "messages state' = messages state @ [AIMessage content calls]"
    by auto
  with Agent show ?thesis
    by (cases "messages state" rule: rev_cases) auto
next
  case Tools
  with assms graph_step_tools [of env db state ev nxt state' db']
  obtain content calls where ne: "messages state \<noteq> []"
    and l: "last (messages state) = AIMessage content calls"
    and m: "messages state'
              = butlast (messages state) @ [AIMessage content (map (repaired_call env) calls)]
                  @ snd ev"
    by auto
  from ne have "length (messages state) = Suc (length (butlast (messages state)))"
    by simp
  with m have "length (messages state) \<le> length (messages state')" by simp
  with Tools l m show ?thesis by auto
qed

theorem history_kept_witness:
  "prefix (butlast (messages (dispatching [insert_call (PStr ''{}'')])))
     [HumanMessage ''File Path: uploads/ktp.png'',
      AIMessage [] [insert_call (PDict [])],
      ToolMessage ''<object>'' ''call_2'']
   \<and> map (repaired_call (test_env llm_answers)) [insert_call (PStr ''{}'')]
       = [insert_call (PDict [])]"
proof -
  have g: "graph_step (test_env llm_answers) Tools [] (dispatching [insert_call (PStr ''{}'')])
     = (Inr ((Tools, [ToolMessage ''<object>'' ''call_2'']), Some Agent,
            \<lparr>messages = [HumanMessage ''File Path: uploads/ktp.png'',
                          AIMessage [] [insert_call (PDict [])],
                          ToolMessage ''<object>'' ''call_2''],
             analysis_result = None\<rparr>), [])"
    by code_simp
  from history_kept [OF g] show ?thesis
    by (simp add: dispatching_def)
qed

text \<open>The claim fails on a batch whose persistence call carries the string \<open>{}\<close>: after
  the step the history holds the call with the parsed dictionary, so the history
  before the step is not a prefix of it.\<close>

theorem repair_rewrites_history:
  "fst (graph_step (test_env llm_answers) Tools [] (dispatching [insert_call (PStr ''{}'')]))
     = Inr ((Tools, [ToolMessage ''<object>'' ''call_2'']), Some Agent,
            \<lparr>messages = [HumanMessage ''File Path: uploads/ktp.png'',
                          AIMessage [] [insert_call (PDict [])],
                          ToolMessage ''<object>'' ''call_2''],
             analysis_result = None\<rparr>)
   \<and> \<not> prefix (messages (dispatching [insert_call (PStr ''{}'')]))
               [HumanMessage ''File Path: uploads/ktp.png'',
                AIMessage [] [insert_call (PDict [])],
                ToolMessage ''<object>'' ''call_2'']"
  by code_simp

section \<open>Runs and the step budget\<close>

text \<open>The four ways a run with a positive limit goes on after its first node.\<close>

lemma graph_stream_Suc:
  "graph_stream env (Suc n) nd db state = (evs, res, st, db') \<Longrightarrow>
     (\<exists>e. graph_step env nd db state = (Inl e, db') \<and> evs = [] \<and> res = Some e \<and> st = state)
   \<or> (\<exists>ev nxt. graph_step env nd db state = (Inr (ev, nxt, st), db') \<and> n = 0
          \<and> evs = [ev] \<and> res = Some GraphRecursionError)
   \<or> (\<exists>ev. graph_step env nd db state = (Inr (ev, None, st), db') \<and> 0 < n
          \<and> evs = [ev] \<and> res = None)
   \<or> (\<exists>ev nd' state1 db1 evs'. graph_step env nd db state = (Inr (ev, Some nd', state1), db1)
          \<and> 0 < n \<and> graph_stream env n nd' db1 state1 = (evs', res, st, db')
          \<and> evs = ev # evs')"
  by (auto split: prod.splits sum.splits option.splits if_splits)

lemma graph_stream_bound:
  "graph_stream env n nd db state = (evs, res, st, db') \<Longrightarrow> length evs \<le> n"
proof (induction n arbitrary: nd db state evs)
  case 0
  then show ?case by simp
next
  case (Suc n)
  from graph_stream_Suc [OF Suc.prems] Suc.IH show ?case by fastforce
qed

lemma graph_stream_used_up:
  "graph_stream env n nd db state = (evs, res, st, db') \<Longrightarrow> 0 < n \<Longrightarrow> length evs = n
     \<Longrightarrow> res = Some GraphRecursionError"
proof (induction n arbitrary: nd db state evs)
  case 0
  then show ?case by simp
next
  case (Suc n)
  from graph_stream_Suc [OF Suc.prems(1)] Suc.prems(3) Suc.IH show ?case by fastforce
qed

lemma graph_stream_normal_end:
  "graph_stream env n nd db state = (evs, None, st, db') \<Longrightarrow> length evs < n \<and> evs \<noteq> []"
proof (induction n arbitrary: nd db state evs)
  case 0
  then show ?case by simp
next
  case (Suc n)
  from graph_stream_Suc [OF Suc.prems] Suc.IH show ?case by fastforce
qed

lemma graph_stream_always_calls:
  assumes "\<forall>h content calls. llm_with_tools env h = Inr (content, calls) \<longrightarrow> calls \<noteq> []"
  shows "graph_stream env n nd db state = (evs, res, st, db') \<Longrightarrow> res \<noteq> None"
proof (induction n arbitrary: nd db state evs)
  case 0
  then show ?case by auto
next
  case (Suc n)
  have no_end: "nxt \<noteq> None" if "graph_step env nd db state = (Inr (ev, nxt, s1), d1)"
    for ev nxt s1 d1
  proof (cases nd)
    case Agent
    with that graph_step_agent [of env db state ev nxt s1 d1] assms show ?thesis by auto
  next
    case Tools
    with that graph_step_tools [of env db state ev nxt s1 d1] show ?thesis by auto
  qed
  from graph_stream_Suc [OF Suc.prems] show ?case
  proof (elim disjE exE conjE)
    fix ev assume "graph_step env nd db state = (Inr (ev, None, st), db')"
    with no_end show ?thesis by blast
  next
    fix ev nd' state1 db1 evs'
    assume "graph_stream env n nd' db1 state1 = (evs', res, st, db')"
    with Suc.IH show ?thesis by blast
  qed auto
qed

text \<open>
  C8, as the code has it. For every reasoner, a run executes at most fifteen nodes. A run
  that executes fifteen nodes ends with the recursion-limit error, whatever the
  fifteenth node did. A run that ends without an exception took fewer than fifteen
  nodes, and the response is the one its events set. A run that ends with an exception
  is answered with \<open>An error occurred:\<close> followed by the exception's text, which is never
  the fixed diagnostic \<open>Agent did not produce a final response.\<close> When every response
  of the reasoner carries tool calls, the run ends with an exception.
\<close>

theorem budget_abort:
  assumes "graph_stream env recursion_limit Agent db
             \<lparr>messages = add_messages [] [HumanMessage prompt], analysis_result = None\<rparr>
           = (evs, res, st, db')"
  shows "length evs \<le> 15
     \<and> (length evs = 15 \<longrightarrow> res = Some GraphRecursionError)
     \<and> (res = None \<longrightarrow>
          length evs < 15
          \<and> upload_file env db prompt = (foldl on_event no_final_response evs, db'))
     \<and> (\<forall>e. res = Some e \<longrightarrow>
          upload_file env db prompt = (''An error occurred: '' @ exc_str env e, db')
          \<and> fst (upload_file env db prompt) \<noteq> ''Agent did not produce a final response.'')
     \<and> ((\<forall>h content calls. llm_with_tools env h = Inr (content, calls) \<longrightarrow> calls \<noteq> [])
          \<longrightarrow> res \<noteq> None)"
proof -
  have l: "recursion_limit = 15" by (simp add: recursion_limit_def)
  from graph_stream_bound [OF assms] l have "length evs \<le> 15" by simp
  moreover from graph_stream_used_up [OF assms] l
  have "length evs = 15 \<longrightarrow> res = Some GraphRecursionError" by simp
  moreover have "res = None \<longrightarrow>
          length evs < 15
          \<and> upload_file env db prompt = (foldl on_event no_final_response evs, db')"
  proof
    assume n: "res = None"
    with graph_stream_normal_end [of env recursion_limit Agent db _ evs st db'] assms l
    have "length evs < 15" by simp
    moreover from assms n
    have "upload_file env db prompt = (foldl on_event no_final_response evs, db')"
      by (simp add: upload_file_def)
    ultimately show "length evs < 15
          \<and> upload_file env db prompt = (foldl on_event no_final_response evs, db')" ..
  qed
  moreover have "\<forall>e. res = Some e \<longrightarrow>
          upload_file env db prompt = (''An error occurred: '' @ exc_str env e, db')
          \<and> fst (upload_file env db prompt) \<noteq> ''Agent did not produce a final response.''"
    using assms by (simp add: upload_file_def)
  moreover have "(\<forall>h content calls. llm_with_tools env h = Inr (content, calls) \<longrightarrow> calls \<noteq> [])
          \<longrightarrow> res \<noteq> None"
    using graph_stream_always_calls [OF _ assms] by blast
  ultimately show ?thesis by blast
qed

text \<open>Three runs: the reasoner that always asks for a duplicate check uses up the
  budget and is answered with the text of the recursion-limit error; so is the reasoner
  whose fifteenth node is its final answer; the reasoner that answers at once is
  answered with its text.\<close>

theorem budget_abort_witness:
  "length (fst (graph_stream (test_env llm_always_calls) recursion_limit Agent []
       \<lparr>messages = add_messages [] [HumanMessage ''File Path: uploads/ktp.png''],
        analysis_result = None\<rparr>)) = 15
   \<and> upload_file (test_env llm_always_calls) [] ''File Path: uploads/ktp.png''
       = (''An error occurred: '' @ exc_str (test_env llm_always_calls) GraphRecursionError, [])
   \<and> length (fst (graph_stream (test_env llm_answers_at_limit) recursion_limit Agent []
       \<lparr>messages = add_messages [] [HumanMessage ''File Path: uploads/ktp.png''],
        analysis_result = None\<rparr>)) = 15
   \<and> upload_file (test_env llm_answers_at_limit) [] ''File Path: uploads/ktp.png''
       = (''An error occurred: '' @ exc_str (test_env llm_answers_at_limit) GraphRecursionError, [])
   \<and> upload_file (test_env llm_answers) [] ''File Path: uploads/ktp.png'' = (''Selesai.'', [])"
proof -
  let ?init = "\<lparr>messages = add_messages [] [HumanMessage ''File Path: uploads/ktp.png''],
                analysis_result = None\<rparr>"
  let ?X = "graph_stream (test_env llm_always_calls) recursion_limit Agent [] ?init"
  let ?Y = "graph_stream (test_env llm_answers_at_limit) recursion_limit Agent [] ?init"
  let ?Z = "graph_stream (test_env llm_answers) recursion_limit Agent [] ?init"
  have x: "?X = (fst ?X, fst (snd ?X), fst (snd (snd ?X)), snd (snd (snd ?X)))" by simp
  have y: "?Y = (fst ?Y, fst (snd ?Y), fst (snd (snd ?Y)), snd (snd (snd ?Y)))" by simp
  have z: "?Z = (fst ?Z, fst (snd ?Z), fst (snd (snd ?Z)), snd (snd (snd ?Z)))" by simp
  have lx: "length (fst ?X) = 15" by code_simp
  have dx: "snd (snd (snd ?X)) = []" by code_simp
  have ly: "length (fst ?Y) = 15" by code_simp
  have dy: "snd (snd (snd ?Y)) = []" by code_simp
  have rz: "fst (snd ?Z) = None" by code_simp
  have ez: "fst ?Z = [(Agent, [AIMessage ''Selesai.'' []])]" by code_simp
  have dz: "snd (snd (snd ?Z)) = []" by code_simp
  from budget_abort [OF x] lx dx
  have "upload_file (test_env llm_always_calls) [] ''File Path: uploads/ktp.png''
       = (''An error occurred: '' @ exc_str (test_env llm_always_calls) GraphRecursionError, [])"
    by simp
  moreover from budget_abort [OF y] ly dy
  have "upload_file (test_env llm_answers_at_limit) [] ''File Path: uploads/ktp.png''
       = (''An error occurred: '' @ exc_str (test_env llm_answers_at_limit) GraphRecursionError, [])"
    by simp
  moreover from budget_abort [OF z] rz ez dz
  have "upload_file (test_env llm_answers) [] ''File Path: uploads/ktp.png'' = (''Selesai.'', [])"
    by (simp add: no_final_response_def)
  ultimately show ?thesis using lx ly by blast
qed

text \<open>The claim's diagnostic fails for the reasoner that always asks for a duplicate
  check: the response is the text of the recursion-limit error, not the fixed
  diagnostic.\<close>

theorem budget_message:
  "upload_file (test_env llm_always_calls) [] ''File Path: uploads/ktp.png''
     = (''An error occurred: '' @ exc_str (test_env llm_always_calls) GraphRecursionError, [])
   \<and> fst (upload_file (test_env llm_always_calls) [] ''File Path: uploads/ktp.png'')
       \<noteq> no_final_response"
  by code_simp

end
